theory Spec2Isabelle
  imports Main
begin

section \<open>Python values and exceptions\<close>

text \<open>
  The three tools of \<^verbatim>\<open>multi_tool_agent/agent.py\<close> work on decoded JSON, that is on
  Python objects. A Python \<^verbatim>\<open>float\<close> is an IEEE double: a finite one is kept as sign,
  mantissa and binary exponent, with the exact value \<open>(-1)^s * m * 2^e\<close>, so that
  formatting is exact integer arithmetic; the two infinities and NaN are values of their
  own (Python's \<^verbatim>\<open>json\<close> decoder produces them from \<^verbatim>\<open>1e999\<close>, \<^verbatim>\<open>Infinity\<close> and
  \<^verbatim>\<open>NaN\<close>). A Python \<^verbatim>\<open>int\<close> is unbounded. A \<^verbatim>\<open>dict\<close> is an association list in
  insertion order; its keys are distinct, and a lookup takes the first match.
  A string is a list of 8-bit characters, read as the code points U+0000 to U+00FF.
\<close>

datatype pyfloat = Finite bool nat int | Infinity bool | NaN

datatype pyval =
    PyNone
  | PyBool bool
  | PyInt int
  | PyFloat pyfloat
  | PyStr string
  | PyList "pyval list"
  | PyDict "(string \<times> pyval) list"

text \<open>
  The exceptions the code can meet. \<open>RequestException\<close> stands for
  \<^verbatim>\<open>requests.exceptions.RequestException\<close> and all its subclasses (ConnectionError,
  Timeout, HTTPError, JSONDecodeError, ...) and carries \<^verbatim>\<open>str(e)\<close>; the others are the
  builtin exceptions raised by subscripting, attribute access and formatting.
\<close>

datatype exn =
    RequestException string
  | KeyError string
  | TypeError
  | AttributeError
  | ValueError
  | OverflowError

definition bind :: "exn + 'a \<Rightarrow> ('a \<Rightarrow> exn + 'b) \<Rightarrow> exn + 'b" where
  "bind r f = (case r of Inl e \<Rightarrow> Inl e | Inr x \<Rightarrow> f x)"

text \<open>\<^verbatim>\<open>obj[key]\<close> with a string key: only a dict can be subscripted by a string.\<close>

fun getitem :: "pyval \<Rightarrow> string \<Rightarrow> exn + pyval" where
  "getitem (PyDict kvs) k = (case map_of kvs k of None \<Rightarrow> Inl (KeyError k) | Some v \<Rightarrow> Inr v)"
| "getitem PyNone k = Inl TypeError"
| "getitem (PyBool b) k = Inl TypeError"
| "getitem (PyInt i) k = Inl TypeError"
| "getitem (PyFloat f) k = Inl TypeError"
| "getitem (PyStr s) k = Inl TypeError"
| "getitem (PyList xs) k = Inl TypeError"

text \<open>Reading a field of a returned envelope; \<open>None\<close> when the value is no dict or has no such key.\<close>

fun dict_get :: "pyval \<Rightarrow> string \<Rightarrow> pyval option" where
  "dict_get (PyDict kvs) k = map_of kvs k"
| "dict_get PyNone k = None"
| "dict_get (PyBool b) k = None"
| "dict_get (PyInt i) k = None"
| "dict_get (PyFloat f) k = None"
| "dict_get (PyStr s) k = None"
| "dict_get (PyList xs) k = None"

subsection \<open>\<^verbatim>\<open>str.lower\<close>\<close>

text \<open>
  On the code points below 256, \<^verbatim>\<open>str.lower\<close> moves A to Z and the Latin-1 capitals
  U+00C0 to U+00DE (the multiplication sign U+00D7 apart) up by 32 and leaves every other
  character alone.
\<close>

definition lower_char :: "char \<Rightarrow> char" where
  "lower_char c =
     (let n = (of_char c :: nat)
      in if (65 \<le> n \<and> n \<le> 90) \<or> (192 \<le> n \<and> n \<le> 222 \<and> n \<noteq> 215)
         then char_of (n + 32) else c)"

definition lower :: "string \<Rightarrow> string" where
  "lower s = map lower_char s"

text \<open>\<^verbatim>\<open>condition.lower()\<close>: only a \<^verbatim>\<open>str\<close> has the method.\<close>

fun py_lower :: "pyval \<Rightarrow> exn + string" where
  "py_lower (PyStr s) = Inr (lower s)"
| "py_lower PyNone = Inl AttributeError"
| "py_lower (PyBool b) = Inl AttributeError"
| "py_lower (PyInt i) = Inl AttributeError"
| "py_lower (PyFloat f) = Inl AttributeError"
| "py_lower (PyList xs) = Inl AttributeError"
| "py_lower (PyDict kvs) = Inl AttributeError"

subsection \<open>The format specification \<^verbatim>\<open>.1f\<close>\<close>

definition digit_char :: "nat \<Rightarrow> char" where
  "digit_char d = ''0123456789'' ! d"

fun digits :: "nat \<Rightarrow> string" where
  "digits n = (if n < 10 then [digit_char n] else digits (n div 10) @ [digit_char (n mod 10)])"

declare digits.simps [simp del]

text \<open>
  The number of tenths nearest to \<open>m * 2^e\<close>, a tie going to the even neighbour: Python
  formats the exact value of the double, correctly rounded.
\<close>

definition round_tenths :: "nat \<Rightarrow> int \<Rightarrow> nat" where
  "round_tenths m e =
     (if 0 \<le> e then m * 2 ^ nat e * 10
      else let d = 2 ^ nat (- e); q = (m * 10) div d; r = (m * 10) mod d
           in if d < 2 * r \<or> (2 * r = d \<and> odd q) then q + 1 else q)"

fun format_float_1f :: "pyfloat \<Rightarrow> string" where
  "format_float_1f NaN = ''nan''"
| "format_float_1f (Infinity s) = (if s then ''-inf'' else ''inf'')"
| "format_float_1f (Finite s m e) =
     (let n = round_tenths m e
      in (if s then ''-'' else '''') @ digits (n div 10) @ ''.'' @ [digit_char (n mod 10)])"

fun bit_length :: "nat \<Rightarrow> nat" where
  "bit_length n = (if n = 0 then 0 else Suc (bit_length (n div 2)))"

declare bit_length.simps [simp del]

text \<open>
  \<^verbatim>\<open>int.__format__\<close> with presentation type \<^verbatim>\<open>f\<close> first converts the integer to a
  float: exact up to 53 bits, rounded to 53 bits (ties to even) beyond, and
  \<^verbatim>\<open>OverflowError\<close> when the result would reach \<open>2^1024\<close>.
\<close>

definition float_limit :: nat where
  "float_limit = 2 ^ 1024"

definition float_of_int :: "int \<Rightarrow> exn + pyfloat" where
  "float_of_int i =
     (let a = nat \<bar>i\<bar>; b = bit_length a
      in if b \<le> 53 then Inr (Finite (i < 0) a 0)
         else let sh = b - 53; q = a div 2 ^ sh; r = a mod 2 ^ sh; h = 2 ^ (sh - 1);
                  m = (if h < r \<or> (r = h \<and> odd q) then q + 1 else q)
              in if float_limit \<le> m * 2 ^ sh then Inl OverflowError
                 else Inr (Finite (i < 0) m (int sh)))"

text \<open>\<^verbatim>\<open>f"{v:.1f}"\<close>: \<^verbatim>\<open>bool\<close> inherits the method of \<^verbatim>\<open>int\<close>; a \<^verbatim>\<open>str\<close> rejects the
  format code with \<^verbatim>\<open>ValueError\<close>; \<^verbatim>\<open>None\<close>, lists and dicts accept no format
  specification at all (\<^verbatim>\<open>TypeError\<close>).\<close>

fun format_1f :: "pyval \<Rightarrow> exn + string" where
  "format_1f (PyFloat f) = Inr (format_float_1f f)"
| "format_1f (PyInt i) = bind (float_of_int i) (\<lambda>f. Inr (format_float_1f f))"
| "format_1f (PyBool b) = bind (float_of_int (if b then 1 else 0)) (\<lambda>f. Inr (format_float_1f f))"
| "format_1f (PyStr s) = Inl ValueError"
| "format_1f PyNone = Inl TypeError"
| "format_1f (PyList xs) = Inl TypeError"
| "format_1f (PyDict kvs) = Inl TypeError"

section \<open>The environment: configuration, HTTP layer and clock\<close>

record request =
  url :: string
  params :: "(string \<times> pyval) list"

text \<open>
  A response as far as the code reads it: the status line, the URL it came from, and what
  \<^verbatim>\<open>response.json()\<close> makes of the body: the decoded value, or the message of the
  decoder's error.
\<close>

record response =
  status_code :: int
  reason :: string
  resp_url :: string
  body_json :: "string + pyval"

text \<open>One call of \<^verbatim>\<open>requests.get\<close> either raises a \<^verbatim>\<open>RequestException\<close> (connection
  refused, DNS failure, timeout, ...) or returns a response.\<close>

datatype http_outcome = Raises string | Responds response

text \<open>
  A local time with its zone, as \<^verbatim>\<open>datetime.datetime.now(tz)\<close> returns it; \<open>utcoffset\<close>
  is in minutes (New York's offset has been a whole number of minutes since 1883).
\<close>

record datetime =
  year :: nat
  month :: nat
  day :: nat
  hour :: nat
  minute :: nat
  second :: nat
  tzname :: string
  utcoffset :: int

text \<open>
  What a call depends on besides its arguments: \<open>api_key\<close> is
  \<^verbatim>\<open>os.getenv("WEATHERAPI_KEY")\<close>, \<open>http_get\<close> answers \<^verbatim>\<open>requests.get(url, params=params)\<close>,
  and \<open>now_new_york\<close> is the value of
  \<^verbatim>\<open>datetime.datetime.now(ZoneInfo("America/New_York"))\<close> at the time of the call (the
  zone database of the installation is taken to hold that zone).
\<close>

record env =
  api_key :: "string option"
  http_get :: "request \<Rightarrow> http_outcome"
  now_new_york :: datetime

text \<open>
  Calling \<^verbatim>\<open>requests.get\<close> is the one effect of the tools: the call is returned in a
  list next to its outcome, so that the calls an invocation makes can be counted.
\<close>

definition requests_get :: "env \<Rightarrow> request \<Rightarrow> request list \<times> (exn + response)" where
  "requests_get e req =
     ([req],
      case http_get e req of Raises msg \<Rightarrow> Inl (RequestException msg) | Responds r \<Rightarrow> Inr r)"

definition show_int :: "int \<Rightarrow> string" where
  "show_int i = (if i < 0 then ''-'' else '''') @ digits (nat \<bar>i\<bar>)"

text \<open>\<^verbatim>\<open>Response.raise_for_status\<close> raises \<^verbatim>\<open>HTTPError\<close> for the status codes 400 to 599
  and for no other.\<close>

definition http_error_msg :: "response \<Rightarrow> string" where
  "http_error_msg r =
     show_int (status_code r)
       @ (if status_code r < 500 then '' Client Error: '' else '' Server Error: '')
       @ reason r @ '' for url: '' @ resp_url r"

definition raise_for_status :: "response \<Rightarrow> exn + unit" where
  "raise_for_status r =
     (if 400 \<le> status_code r \<and> status_code r < 600
      then Inl (RequestException (http_error_msg r)) else Inr ())"

text \<open>\<^verbatim>\<open>Response.json\<close> raises \<^verbatim>\<open>requests.exceptions.JSONDecodeError\<close>, a
  \<^verbatim>\<open>RequestException\<close> (as of requests 2.27), when the body is no JSON document.\<close>

definition response_json :: "response \<Rightarrow> exn + pyval" where
  "response_json r =
     (case body_json r of Inl msg \<Rightarrow> Inl (RequestException msg) | Inr v \<Rightarrow> Inr v)"

text \<open>
  The three statements that open both \<^verbatim>\<open>try\<close> blocks (lines 33 to 35 and 82 to 84):
  \<^verbatim>\<open>response = requests.get(base_url, params=params)\<close>,
  \<^verbatim>\<open>response.raise_for_status()\<close>, \<^verbatim>\<open>data = response.json()\<close>.
\<close>

definition fetch_json :: "env \<Rightarrow> request \<Rightarrow> request list \<times> (exn + pyval)" where
  "fetch_json e req =
     (case requests_get e req of
        (calls, got) \<Rightarrow>
          (calls,
           bind got (\<lambda>response.
           bind (raise_for_status response) (\<lambda>_.
           response_json response))))"

section \<open>The tools\<close>

definition key_not_configured :: pyval where
  "key_not_configured =
     PyDict [(''status'', PyStr ''error''),
             (''error_message'', PyStr ''WeatherAPI key not configured'')]"

definition not_available :: "string \<Rightarrow> string \<Rightarrow> pyval" where
  "not_available city msg =
     PyDict [(''status'', PyStr ''error''),
             (''error_message'',
              PyStr (''Weather information for '' @ [CHR 0x27] @ city @ [CHR 0x27]
                       @ '' is not available: '' @ msg))]"

text \<open>\<^verbatim>\<open>try: ... except requests.exceptions.RequestException as e: return handler\<close>: any
  other exception passes through.\<close>

fun except_RequestException :: "exn + pyval \<Rightarrow> (string \<Rightarrow> pyval) \<Rightarrow> exn + pyval" where
  "except_RequestException (Inl (RequestException msg)) h = Inr (h msg)"
| "except_RequestException (Inl (KeyError k)) h = Inl (KeyError k)"
| "except_RequestException (Inl TypeError) h = Inl TypeError"
| "except_RequestException (Inl AttributeError) h = Inl AttributeError"
| "except_RequestException (Inl ValueError) h = Inl ValueError"
| "except_RequestException (Inl OverflowError) h = Inl OverflowError"
| "except_RequestException (Inr v) h = Inr v"

definition weather_request :: "string \<Rightarrow> string \<Rightarrow> request" where
  "weather_request k city =
     \<lparr>url = ''http://api.weatherapi.com/v1/current.json'',
      params = [(''key'', PyStr k), (''q'', PyStr city), (''aqi'', PyStr ''no'')]\<rparr>"

text \<open>Lines 37 to 51 of \<^verbatim>\<open>get_weather\<close>: from the decoded body to the success envelope,
  in the order in which Python evaluates the subscripts, the method call and the two
  format expressions.\<close>

definition weather_envelope :: "string \<Rightarrow> pyval \<Rightarrow> exn + pyval" where
  "weather_envelope city data =
     bind (getitem data ''current'') (\<lambda>c1.
     bind (getitem c1 ''temp_c'') (\<lambda>temp_c.
     bind (getitem data ''current'') (\<lambda>c2.
     bind (getitem c2 ''temp_f'') (\<lambda>temp_f.
     bind (getitem data ''current'') (\<lambda>c3.
     bind (getitem c3 ''condition'') (\<lambda>cond.
     bind (getitem cond ''text'') (\<lambda>condition.
     bind (py_lower condition) (\<lambda>lowered.
     bind (format_1f temp_c) (\<lambda>tc.
     bind (format_1f temp_f) (\<lambda>tf.
       Inr (PyDict [(''status'', PyStr ''success''),
                    (''condition'', PyStr lowered),
                    (''temperature_c'', PyStr tc),
                    (''temperature_f'', PyStr tf),
                    (''city_name'', PyStr city)])))))))))))"

text \<open>
  \<open>get_weather\<close> returns the calls made to \<^verbatim>\<open>requests.get\<close>, in order, and either the
  returned dict or the exception that leaves the function. \<^verbatim>\<open>not api_key\<close> holds for
  \<^verbatim>\<open>None\<close> and for the empty string.
\<close>

definition get_weather :: "env \<Rightarrow> string \<Rightarrow> request list \<times> (exn + pyval)" where
  "get_weather e city =
     (case api_key e of
        None \<Rightarrow> ([], Inr key_not_configured)
      | Some k \<Rightarrow>
          if k = [] then ([], Inr key_not_configured)
          else case fetch_json e (weather_request k city) of
                 (calls, got) \<Rightarrow>
                   (calls,
                    except_RequestException
                      (bind got (\<lambda>data. weather_envelope city data))
                      (not_available city)))"

definition forecast_request :: "string \<Rightarrow> string \<Rightarrow> int \<Rightarrow> request" where
  "forecast_request k city days =
     \<lparr>url = ''http://api.weatherapi.com/v1/forecast.json'',
      params = [(''key'', PyStr k), (''q'', PyStr city), (''days'', PyInt days),
                (''aqi'', PyStr ''no'')]\<rparr>"

definition get_forcast :: "env \<Rightarrow> string \<Rightarrow> int \<Rightarrow> request list \<times> (exn + pyval)" where
  "get_forcast e city days =
     (case api_key e of
        None \<Rightarrow> ([], Inr key_not_configured)
      | Some k \<Rightarrow>
          if k = [] then ([], Inr key_not_configured)
          else case fetch_json e (forecast_request k city days) of
                 (calls, got) \<Rightarrow>
                   (calls,
                    except_RequestException
                      (bind got (\<lambda>data. Inr data))
                      (not_available city)))"

subsection \<open>\<^verbatim>\<open>get_current_time\<close>\<close>

definition zfill2 :: "nat \<Rightarrow> string" where
  "zfill2 n = (if n < 10 then ''0'' @ digits n else digits n)"

text \<open>\<^verbatim>\<open>%z\<close>: the sign and the offset as hours and minutes, two digits each.\<close>

definition format_offset :: "int \<Rightarrow> string" where
  "format_offset off =
     (if off < 0 then ''-'' else ''+'')
       @ zfill2 (nat \<bar>off\<bar> div 60) @ zfill2 (nat \<bar>off\<bar> mod 60)"

text \<open>\<^verbatim>\<open>now.strftime('%Y-%m-%d %H:%M:%S %Z%z')\<close>; \<^verbatim>\<open>%Y\<close> is the year in decimal, not padded.\<close>

definition strftime :: "datetime \<Rightarrow> string" where
  "strftime t =
     digits (year t) @ ''-'' @ zfill2 (month t) @ ''-'' @ zfill2 (day t) @ '' ''
       @ zfill2 (hour t) @ '':'' @ zfill2 (minute t) @ '':'' @ zfill2 (second t) @ '' ''
       @ tzname t @ format_offset (utcoffset t)"

definition get_current_time :: "env \<Rightarrow> string \<Rightarrow> exn + pyval" where
  "get_current_time e city =
     (if lower city = ''new york''
      then let now = now_new_york e;
               report = ''The current time in '' @ city @ '' is '' @ strftime now
           in Inr (PyDict [(''status'', PyStr ''success''), (''report'', PyStr report)])
      else Inr (PyDict [(''status'', PyStr ''error''),
                        (''error_message'',
                         PyStr (''Sorry, I don't have timezone information for '' @ city @ ''.''))]))"

section \<open>Predicates for stating the properties\<close>








section \<open>Sample environments\<close>

definition sample_now :: datetime where
  "sample_now =
     \<lparr>year = 2026, month = 11, day = 5, hour = 19, minute = 58, second = 51,
      tzname = ''EST'', utcoffset = - 300\<rparr>"

definition env_with :: "string option \<Rightarrow> http_outcome \<Rightarrow> env" where
  "env_with key out = \<lparr>api_key = key, http_get = (\<lambda>_. out), now_new_york = sample_now\<rparr>"

definition current_url :: string where
  "current_url = ''http://api.weatherapi.com/v1/current.json?key=k&q=Paris&aqi=no''"

definition forecast_url :: string where
  "forecast_url = ''http://api.weatherapi.com/v1/forecast.json?key=k&q=Paris&days=3&aqi=no''"

definition responding :: "string \<Rightarrow> int \<Rightarrow> string \<Rightarrow> string + pyval \<Rightarrow> response" where
  "responding u code why body =
     \<lparr>status_code = code, reason = why, resp_url = u, body_json = body\<rparr>"

text \<open>The doubles nearest to 21.2, 70.2 and 21.249.\<close>

definition float_21_2 :: pyfloat where
  "float_21_2 = Finite False 5967269506265907 (- 48)"

definition float_70_2 :: pyfloat where
  "float_70_2 = Finite False 4939885841272013 (- 46)"


definition condition_of :: "string \<Rightarrow> pyval" where
  "condition_of txt = PyDict [(''text'', PyStr txt), (''code'', PyInt 1000)]"

definition current_of :: "pyval \<Rightarrow> pyval \<Rightarrow> string \<Rightarrow> pyval" where
  "current_of tc tf txt =
     PyDict [(''temp_c'', tc), (''temp_f'', tf), (''condition'', condition_of txt)]"

definition current_body :: "pyval \<Rightarrow> pyval \<Rightarrow> string \<Rightarrow> pyval" where
  "current_body tc tf txt =
     PyDict [(''location'', PyDict [(''name'', PyStr ''Paris''), (''country'', PyStr ''France'')]),
             (''current'', current_of tc tf txt)]"

definition sunny_response :: "int \<Rightarrow> string \<Rightarrow> response" where
  "sunny_response code why =
     responding current_url code why
       (Inr (current_body (PyFloat float_21_2) (PyFloat float_70_2) ''Sunny''))"

definition forecast_body :: pyval where
  "forecast_body =
     PyDict [(''location'', PyDict [(''name'', PyStr ''Paris'')]),
             (''forecast'',
              PyDict [(''forecastday'',
                       PyList [PyDict [(''date'', PyStr ''2026-11-06''),
                                       (''day'', PyDict [(''maxtemp_c'', PyFloat float_21_2)])]])])]"


section \<open>Helper lemmas\<close>

subsection \<open>Evaluation of the samples\<close>

lemma format_21_2: "format_float_1f float_21_2 = ''21.2''"
  by (simp add: float_21_2_def round_tenths_def digits.simps digit_char_def Let_def)

lemma format_70_2: "format_float_1f float_70_2 = ''70.2''"
  by (simp add: float_70_2_def round_tenths_def digits.simps digit_char_def Let_def)



lemma lower_Sunny: "lower ''Sunny'' = ''sunny''"
  by code_simp

lemma getitem_current_body:
  "getitem (current_body tc tf txt) ''current'' = Inr (current_of tc tf txt)"
  by (simp add: current_body_def)

lemma getitem_current_of:
  "getitem (current_of tc tf txt) ''temp_c'' = Inr tc"
  "getitem (current_of tc tf txt) ''temp_f'' = Inr tf"
  "getitem (current_of tc tf txt) ''condition'' = Inr (condition_of txt)"
  by (simp_all add: current_of_def)

lemma getitem_condition_of: "getitem (condition_of txt) ''text'' = Inr (PyStr txt)"
  by (simp add: condition_of_def)

lemmas sample_body_simps = getitem_current_body getitem_current_of getitem_condition_of

lemma env_with_simps:
  "api_key (env_with key out) = key"
  "http_get (env_with key out) req = out"
  "now_new_york (env_with key out) = sample_now"
  by (simp_all add: env_with_def)

lemma responding_simps:
  "status_code (responding u code why body) = code"
  "reason (responding u code why body) = why"
  "resp_url (responding u code why body) = u"
  "body_json (responding u code why body) = body"
  by (simp_all add: responding_def)

subsection \<open>The HTTP round trip\<close>

lemma fetch_json_ok:
  assumes "http_get e req = Responds r"
    and "\<not> (400 \<le> status_code r \<and> status_code r < 600)"
    and "body_json r = Inr data"
  shows "fetch_json e req = ([req], Inr data)"
  using assms
  by (auto simp: fetch_json_def requests_get_def raise_for_status_def response_json_def bind_def)


lemma fetch_json_raises:
  "fetch_json e req = (calls, Inl x) \<Longrightarrow> \<exists>msg. x = RequestException msg"
  by (auto simp: fetch_json_def requests_get_def raise_for_status_def response_json_def bind_def
      split: http_outcome.splits if_splits sum.splits)


subsection \<open>The success envelope\<close>

lemma weather_envelope_city:
  "weather_envelope city data = Inr v \<Longrightarrow> dict_get v ''city_name'' = Some (PyStr city)"
  by (auto simp: weather_envelope_def bind_def split: sum.splits)


lemma weather_envelope_sample:
  assumes "format_1f tc = Inr sc" and "format_1f tf = Inr sf"
  shows "weather_envelope city (current_body tc tf txt) =
           Inr (PyDict [(''status'', PyStr ''success''),
                        (''condition'', PyStr (lower txt)),
                        (''temperature_c'', PyStr sc),
                        (''temperature_f'', PyStr sf),
                        (''city_name'', PyStr city)])"
  using assms by (simp add: weather_envelope_def bind_def sample_body_simps)

lemma get_weather_sample:
  assumes "\<not> (400 \<le> code \<and> code < 600)"
    and "format_1f tc = Inr sc" and "format_1f tf = Inr sf"
  shows "get_weather (env_with (Some ''k'')
             (Responds (responding current_url code why (Inr (current_body tc tf txt))))) city =
           ([weather_request ''k'' city],
            Inr (PyDict [(''status'', PyStr ''success''),
                         (''condition'', PyStr (lower txt)),
                         (''temperature_c'', PyStr sc),
                         (''temperature_f'', PyStr sf),
                         (''city_name'', PyStr city)]))"
proof -
  let ?r = "responding current_url code why (Inr (current_body tc tf txt))"
  let ?e = "env_with (Some ''k'') (Responds ?r)"
  have "fetch_json ?e (weather_request ''k'' city) =
          ([weather_request ''k'' city], Inr (current_body tc tf txt))"
    using assms(1) by (intro fetch_json_ok [where r = ?r]) (simp_all add: env_with_simps responding_simps)
  then show ?thesis
    by (simp add: get_weather_def env_with_simps bind_def weather_envelope_sample [OF assms(2,3)])
qed


subsection \<open>Decimal digits\<close>



text \<open>\<open>digits\<close> is decimal notation: reading the digits back gives the number.\<close>

lemma of_char_digit_char: "d < 10 \<Longrightarrow> (of_char (digit_char d) :: nat) = 48 + d"
proof -
  assume "d < 10"
  then have "d \<in> {0, 1, 2, 3, 4, 5, 6, 7, 8, 9}"
    by auto
  then show ?thesis
    by (auto simp: digit_char_def)
qed

lemma digits_value: "foldl (\<lambda>a c. 10 * a + (of_char c - 48)) 0 (digits n) = n"
proof (induction n rule: digits.induct)
  case (1 n)
  show ?case
  proof (cases "n < 10")
    case True
    then show ?thesis
      by (subst digits.simps) (simp add: of_char_digit_char)
  next
    case False
    with 1 show ?thesis
      by (subst digits.simps) (simp add: of_char_digit_char)
  qed
qed









subsection \<open>Formatting with one decimal\<close>





subsection \<open>Lower-casing to \<^verbatim>\<open>new york\<close>\<close>

lemma of_char_lower_char:
  "(of_char (lower_char c) :: nat) =
     (if (65 \<le> (of_char c :: nat) \<and> (of_char c :: nat) \<le> 90)
         \<or> (192 \<le> (of_char c :: nat) \<and> (of_char c :: nat) \<le> 222 \<and> (of_char c :: nat) \<noteq> 215)
      then of_char c + 32 else of_char c)"
  by (simp add: lower_char_def Let_def)

lemma lower_code_eq_iff:
  fixes n a b :: nat
  assumes "b = a + 32" and "65 \<le> a" and "a \<le> 90"
  shows "((if (65 \<le> n \<and> n \<le> 90) \<or> (192 \<le> n \<and> n \<le> 222 \<and> n \<noteq> 215) then n + 32 else n) = b)
           \<longleftrightarrow> n = b \<or> n = a"
  using assms by auto

lemma lower_char_eq_iff:
  assumes "(of_char l :: nat) = of_char u + 32"
    and "65 \<le> (of_char u :: nat)" and "(of_char u :: nat) \<le> 90"
  shows "lower_char c = l \<longleftrightarrow> c = l \<or> c = u"
proof -
  have "lower_char c = l \<longleftrightarrow> (of_char (lower_char c) :: nat) = of_char l"
    by (simp only: of_char_eq_iff)
  also have "\<dots> \<longleftrightarrow> (of_char c :: nat) = of_char l \<or> (of_char c :: nat) = of_char u"
    unfolding of_char_lower_char by (rule lower_code_eq_iff [OF assms])
  also have "\<dots> \<longleftrightarrow> c = l \<or> c = u"
    by (simp only: of_char_eq_iff)
  finally show ?thesis .
qed

lemma lower_char_space: "lower_char c = CHR '' '' \<longleftrightarrow> c = CHR '' ''"
proof -
  have "lower_char c = CHR '' '' \<longleftrightarrow> (of_char (lower_char c) :: nat) = of_char (CHR '' '')"
    by (simp only: of_char_eq_iff)
  also have "\<dots> \<longleftrightarrow> (of_char c :: nat) = of_char (CHR '' '')"
    by (simp add: of_char_lower_char)
  also have "\<dots> \<longleftrightarrow> c = CHR '' ''"
    by (simp only: of_char_eq_iff)
  finally show ?thesis .
qed

lemma lower_char_letters:
  "lower_char c = CHR ''n'' \<longleftrightarrow> c = CHR ''n'' \<or> c = CHR ''N''"
  "lower_char c = CHR ''e'' \<longleftrightarrow> c = CHR ''e'' \<or> c = CHR ''E''"
  "lower_char c = CHR ''w'' \<longleftrightarrow> c = CHR ''w'' \<or> c = CHR ''W''"
  "lower_char c = CHR ''y'' \<longleftrightarrow> c = CHR ''y'' \<or> c = CHR ''Y''"
  "lower_char c = CHR ''o'' \<longleftrightarrow> c = CHR ''o'' \<or> c = CHR ''O''"
  "lower_char c = CHR ''r'' \<longleftrightarrow> c = CHR ''r'' \<or> c = CHR ''R''"
  "lower_char c = CHR ''k'' \<longleftrightarrow> c = CHR ''k'' \<or> c = CHR ''K''"
  by (rule lower_char_eq_iff; simp)+

text \<open>
  The strings that \<^verbatim>\<open>city.lower() == "new york"\<close> accepts are the 128 spellings of
  \<^verbatim>\<open>new york\<close> in upper and lower case.
\<close>

lemma lower_new_york_iff:
  "lower city = ''new york'' \<longleftrightarrow>
     list_all2 (\<lambda>c cs. c \<in> set cs) city
       [''nN'', ''eE'', ''wW'', '' '', ''yY'', ''oO'', ''rR'', ''kK'']"
proof -
  have "lower city = ''new york'' \<longleftrightarrow> list_all2 (\<lambda>c d. lower_char c = d) city ''new york''"
    unfolding lower_def by (simp only: list_all2_eq [of "map lower_char city"] list_all2_map1)
  also have "\<dots> \<longleftrightarrow> list_all2 (\<lambda>c cs. c \<in> set cs) city
       [''nN'', ''eE'', ''wW'', '' '', ''yY'', ''oO'', ''rR'', ''kK'']"
    by (simp add: list_all2_Cons2 lower_char_letters lower_char_space)
  finally show ?thesis .
qed


section \<open>The properties\<close>

subsection \<open>C1: the envelope at the boundary\<close>

text \<open>
  C1 asks that every operation returns an envelope with a \<open>status\<close> field on every input and
  lets no exception escape, a response body with missing fields included. The
  \<^verbatim>\<open>except\<close> clause of \<open>get_weather\<close> catches \<^verbatim>\<open>RequestException\<close> only: with a key
  configured and the upstream answering \<^verbatim>\<open>200 OK\<close> with the JSON body \<^verbatim>\<open>{}\<close>, the
  subscript \<^verbatim>\<open>data["current"]\<close> raises \<^verbatim>\<open>KeyError\<close>, which leaves the function.
\<close>

theorem get_weather_missing_field_raises:
  "get_weather (env_with (Some ''k'') (Responds (responding current_url 200 ''OK'' (Inr (PyDict [])))))
       ''Paris'' =
     ([weather_request ''k'' ''Paris''], Inl (KeyError ''current''))"
proof -
  let ?r = "responding current_url 200 ''OK'' (Inr (PyDict []))"
  let ?e = "env_with (Some ''k'') (Responds ?r)"
  have "fetch_json ?e (weather_request ''k'' ''Paris'') =
          ([weather_request ''k'' ''Paris''], Inr (PyDict []))"
    by (intro fetch_json_ok [where r = ?r]) (simp_all add: env_with_simps responding_simps)
  then show ?thesis
    by (simp add: get_weather_def env_with_simps bind_def weather_envelope_def)
qed

subsection \<open>C2: the one supported city\<close>

text \<open>
  C2: \<open>get_current_time\<close> returns an envelope with status \<open>success\<close> exactly when the
  lower-cased city is \<^verbatim>\<open>new york\<close>; for every other city it returns the error envelope
  whose message names the city as it was given.
\<close>

theorem get_current_time_status:
  "((\<exists>v. get_current_time e city = Inr v \<and> dict_get v ''status'' = Some (PyStr ''success''))
      \<longleftrightarrow> lower city = ''new york'') \<and>
   (lower city \<noteq> ''new york'' \<longrightarrow>
      get_current_time e city =
        Inr (PyDict [(''status'', PyStr ''error''),
                     (''error_message'',
                      PyStr (''Sorry, I don't have timezone information for '' @ city @ ''.''))]))"
  by (simp add: get_current_time_def Let_def)

theorem get_current_time_status_witness:
  "lower ''NEW York'' = ''new york'' \<and>
   (\<exists>v. get_current_time (env_with None (Raises ''unreachable'')) ''NEW York'' = Inr v \<and>
        dict_get v ''status'' = Some (PyStr ''success'')) \<and>
   lower ''Boston'' \<noteq> ''new york'' \<and>
   get_current_time (env_with None (Raises ''unreachable'')) ''Boston'' =
     Inr (PyDict [(''status'', PyStr ''error''),
                  (''error_message'',
                   PyStr ''Sorry, I don't have timezone information for Boston.'')])"
proof -
  have a: "lower ''NEW York'' = ''new york''"
    by code_simp
  have b: "lower ''Boston'' \<noteq> ''new york''"
    by (simp add: lower_def)
  from get_current_time_status [of "env_with None (Raises ''unreachable'')" "''NEW York''"]
    get_current_time_status [of "env_with None (Raises ''unreachable'')" "''Boston''"] a b
  show ?thesis by simp
qed

subsection \<open>C3: no key, no request\<close>

text \<open>
  C3: when the API key is not configured, \<open>get_weather\<close> and \<open>get_forcast\<close> return the
  error envelope for every city and issue no HTTP request.
\<close>

theorem no_key_no_request:
  "api_key e = None \<Longrightarrow>
   get_weather e city =
     ([], Inr (PyDict [(''status'', PyStr ''error''),
                       (''error_message'', PyStr ''WeatherAPI key not configured'')])) \<and>
   get_forcast e city days =
     ([], Inr (PyDict [(''status'', PyStr ''error''),
                       (''error_message'', PyStr ''WeatherAPI key not configured'')]))"
  by (simp add: get_weather_def get_forcast_def key_not_configured_def)

theorem no_key_no_request_witness:
  "api_key (env_with None (Responds (sunny_response 200 ''OK''))) = None \<and>
   get_weather (env_with None (Responds (sunny_response 200 ''OK''))) ''Paris'' =
     ([], Inr (PyDict [(''status'', PyStr ''error''),
                       (''error_message'', PyStr ''WeatherAPI key not configured'')])) \<and>
   get_forcast (env_with None (Responds (sunny_response 200 ''OK''))) ''Paris'' 7 =
     ([], Inr (PyDict [(''status'', PyStr ''error''),
                       (''error_message'', PyStr ''WeatherAPI key not configured'')]))"
proof -
  have h: "api_key (env_with None (Responds (sunny_response 200 ''OK''))) = None"
    by (simp add: env_with_simps)
  from no_key_no_request [OF h, of "''Paris''" 7] h show ?thesis by simp
qed

subsection \<open>C4: the success envelope for Paris\<close>

text \<open>
  C4: with a key configured and a well-formed response whose \<open>current.temp_c\<close> is 21.2,
  \<open>current.temp_f\<close> is 70.2 and \<open>current.condition.text\<close> is \<^verbatim>\<open>Sunny\<close>,
  \<open>get_weather\<close> on \<^verbatim>\<open>Paris\<close> returns exactly the success envelope with the condition
  \<^verbatim>\<open>sunny\<close>, the temperatures \<^verbatim>\<open>21.2\<close> and \<^verbatim>\<open>70.2\<close> and the city name \<^verbatim>\<open>Paris\<close>.
\<close>

theorem get_weather_paris_sunny:
  assumes "api_key e = Some k" and "k \<noteq> []"
    and "http_get e (weather_request k ''Paris'') = Responds r"
    and "\<not> (400 \<le> status_code r \<and> status_code r < 600)"
    and "body_json r = Inr data"
    and "getitem data ''current'' = Inr cur"
    and "getitem cur ''temp_c'' = Inr (PyFloat float_21_2)"
    and "getitem cur ''temp_f'' = Inr (PyFloat float_70_2)"
    and "getitem cur ''condition'' = Inr cond"
    and "getitem cond ''text'' = Inr (PyStr ''Sunny'')"
  shows "get_weather e ''Paris'' =
           ([weather_request k ''Paris''],
            Inr (PyDict [(''status'', PyStr ''success''),
                         (''condition'', PyStr ''sunny''),
                         (''temperature_c'', PyStr ''21.2''),
                         (''temperature_f'', PyStr ''70.2''),
                         (''city_name'', PyStr ''Paris'')]))"
proof -
  have envelope: "weather_envelope ''Paris'' data =
           Inr (PyDict [(''status'', PyStr ''success''),
                         (''condition'', PyStr ''sunny''),
                         (''temperature_c'', PyStr ''21.2''),
                         (''temperature_f'', PyStr ''70.2''),
                         (''city_name'', PyStr ''Paris'')])"
    using assms(6-10)
    by (simp add: weather_envelope_def bind_def format_21_2 format_70_2 lower_Sunny)
  show ?thesis
    using assms(1,2) fetch_json_ok [OF assms(3-5)]
    by (simp add: get_weather_def bind_def envelope)
qed

theorem get_weather_paris_sunny_witness:
  "get_weather (env_with (Some ''k'') (Responds (sunny_response 200 ''OK''))) ''Paris'' =
           ([weather_request ''k'' ''Paris''],
            Inr (PyDict [(''status'', PyStr ''success''),
                         (''condition'', PyStr ''sunny''),
                         (''temperature_c'', PyStr ''21.2''),
                         (''temperature_f'', PyStr ''70.2''),
                         (''city_name'', PyStr ''Paris'')]))"
  by (rule get_weather_paris_sunny [where r = "sunny_response 200 ''OK''"
        and data = "current_body (PyFloat float_21_2) (PyFloat float_70_2) ''Sunny''"
        and cur = "current_of (PyFloat float_21_2) (PyFloat float_70_2) ''Sunny''"
        and cond = "condition_of ''Sunny''"])
     (simp_all add: env_with_simps sunny_response_def responding_simps sample_body_simps)

subsection \<open>C5: a failed request\<close>




subsection \<open>C6: the forecast body\<close>

text \<open>
  C6: with a key configured, when the forecast request succeeds, \<open>get_forcast\<close> returns the
  decoded response body itself, unchanged, with no \<open>status\<close> field added.
\<close>

theorem get_forcast_returns_body:
  assumes "api_key e = Some k" and "k \<noteq> []"
    and "http_get e (forecast_request k city days) = Responds r"
    and "\<not> (400 \<le> status_code r \<and> status_code r < 600)"
    and "body_json r = Inr data"
  shows "get_forcast e city days = ([forecast_request k city days], Inr data)"
  using assms(1,2) fetch_json_ok [OF assms(3-5)]
  by (cases data) (simp_all add: get_forcast_def bind_def)

theorem get_forcast_returns_body_witness:
  "get_forcast (env_with (Some ''k'') (Responds (responding forecast_url 200 ''OK'' (Inr forecast_body))))
       ''Paris'' 3 =
     ([forecast_request ''k'' ''Paris'' 3], Inr forecast_body) \<and>
   dict_get forecast_body ''status'' = None"
proof -
  have "get_forcast (env_with (Some ''k'') (Responds (responding forecast_url 200 ''OK'' (Inr forecast_body))))
       ''Paris'' 3 = ([forecast_request ''k'' ''Paris'' 3], Inr forecast_body)"
    by (rule get_forcast_returns_body [where r = "responding forecast_url 200 ''OK'' (Inr forecast_body)"])
       (simp_all add: env_with_simps responding_simps)
  then show ?thesis
    by (simp add: forecast_body_def)
qed

subsection \<open>C7: one digit after the decimal point\<close>




subsection \<open>C8: the time report\<close>



subsection \<open>C9: the empty key\<close>

text \<open>
  C9: an API key configured as the empty string is treated as an absent one: for every
  city \<open>get_weather\<close> and \<open>get_forcast\<close> return the error envelope with the message
  \<^verbatim>\<open>WeatherAPI key not configured\<close> and issue no HTTP request.
\<close>

theorem empty_key_no_request:
  "api_key e = Some [] \<Longrightarrow>
   get_weather e city =
     ([], Inr (PyDict [(''status'', PyStr ''error''),
                       (''error_message'', PyStr ''WeatherAPI key not configured'')])) \<and>
   get_forcast e city days =
     ([], Inr (PyDict [(''status'', PyStr ''error''),
                       (''error_message'', PyStr ''WeatherAPI key not configured'')]))"
  by (simp add: get_weather_def get_forcast_def key_not_configured_def)

theorem empty_key_no_request_witness:
  "api_key (env_with (Some []) (Responds (sunny_response 200 ''OK''))) = Some [] \<and>
   get_weather (env_with (Some []) (Responds (sunny_response 200 ''OK''))) ''Paris'' =
     ([], Inr (PyDict [(''status'', PyStr ''error''),
                       (''error_message'', PyStr ''WeatherAPI key not configured'')])) \<and>
   get_forcast (env_with (Some []) (Responds (sunny_response 200 ''OK''))) ''Paris'' 7 =
     ([], Inr (PyDict [(''status'', PyStr ''error''),
                       (''error_message'', PyStr ''WeatherAPI key not configured'')]))"
proof -
  have h: "api_key (env_with (Some []) (Responds (sunny_response 200 ''OK''))) = Some []"
    by (simp add: env_with_simps)
  from empty_key_no_request [OF h, of "''Paris''" 7] h show ?thesis by simp
qed

subsection \<open>C10: the city name of the envelope\<close>

text \<open>
  C10: in every success envelope of \<open>get_weather\<close> the field \<open>city_name\<close> is the city
  argument of the call, character for character, whatever the upstream response says.
\<close>

theorem city_name_is_argument:
  assumes "get_weather e city = (calls, Inr v)"
    and "dict_get v ''status'' = Some (PyStr ''success'')"
  shows "dict_get v ''city_name'' = Some (PyStr city)"
proof (cases "api_key e")
  case None
  with assms show ?thesis
    by (auto simp: get_weather_def key_not_configured_def)
next
  case (Some k)
  show ?thesis
  proof (cases "k = []")
    case True
    with Some assms show ?thesis
      by (auto simp: get_weather_def key_not_configured_def)
  next
    case False
    obtain calls' got where fj: "fetch_json e (weather_request k city) = (calls', got)"
      by (cases "fetch_json e (weather_request k city)")
    show ?thesis
    proof (cases got)
      case (Inl x)
      with fj obtain msg where "x = RequestException msg"
        using fetch_json_raises by blast
      with Inl fj Some False assms show ?thesis
        by (auto simp: get_weather_def bind_def not_available_def)
    next
      case (Inr data)
      show ?thesis
      proof (cases "weather_envelope city data")
        case bad: (Inl x)
        with Inr fj Some False assms show ?thesis
          by (cases x) (auto simp: get_weather_def bind_def not_available_def)
      next
        case good: (Inr w)
        with Inr fj Some False assms(1) have "w = v"
          by (simp add: get_weather_def bind_def)
        with good show ?thesis
          by (simp add: weather_envelope_city)
      qed
    qed
  qed
qed

theorem city_name_is_argument_witness:
  "get_weather (env_with (Some ''k'') (Responds (sunny_response 200 ''OK''))) ''pARIS'' =
     ([weather_request ''k'' ''pARIS''],
      Inr (PyDict [(''status'', PyStr ''success''),
                   (''condition'', PyStr ''sunny''),
                   (''temperature_c'', PyStr ''21.2''),
                   (''temperature_f'', PyStr ''70.2''),
                   (''city_name'', PyStr ''pARIS'')])) \<and>
   dict_get (PyDict [(''status'', PyStr ''success''),
                   (''condition'', PyStr ''sunny''),
                   (''temperature_c'', PyStr ''21.2''),
                   (''temperature_f'', PyStr ''70.2''),
                   (''city_name'', PyStr ''pARIS'')]) ''city_name'' = Some (PyStr ''pARIS'')"
proof -
  let ?v = "PyDict [(''status'', PyStr ''success''),
                   (''condition'', PyStr ''sunny''),
                   (''temperature_c'', PyStr ''21.2''),
                   (''temperature_f'', PyStr ''70.2''),
                   (''city_name'', PyStr ''pARIS'')]"
  have "get_weather (env_with (Some ''k'')
          (Responds (responding current_url 200 ''OK''
             (Inr (current_body (PyFloat float_21_2) (PyFloat float_70_2) ''Sunny''))))) ''pARIS'' =
           ([weather_request ''k'' ''pARIS''],
            Inr (PyDict [(''status'', PyStr ''success''),
                         (''condition'', PyStr (lower ''Sunny'')),
                         (''temperature_c'', PyStr ''21.2''),
                         (''temperature_f'', PyStr ''70.2''),
                         (''city_name'', PyStr ''pARIS'')]))"
    by (rule get_weather_sample) (simp_all add: format_21_2 format_70_2)
  then have g: "get_weather (env_with (Some ''k'') (Responds (sunny_response 200 ''OK''))) ''pARIS'' =
     ([weather_request ''k'' ''pARIS''], Inr ?v)"
    by (simp add: sunny_response_def lower_Sunny)
  have s: "dict_get ?v ''status'' = Some (PyStr ''success'')"
    by simp
  from city_name_is_argument [OF g s] g show ?thesis
    by (intro conjI)
qed


end
